theory Spec2Isabelle
  imports Complex_Main "HOL-Library.Word"
begin

section \<open>Python values used by \<open>qmt/geometry/geo_data.py\<close>\<close>

text \<open>
  Every \<open>raise\<close> of the module is a \<open>ValueError\<close> whose message tells the cases apart:
  \<^item> \<open>"Attempted to overwrite the part/edge <name>."\<close> (the spec's DuplicateNameError),
  \<^item> \<open>"Attempted to remove the part/edge <name>, which doesn't exist."\<close> (NotFoundError),
  \<^item> \<open>"Part <name> is not a valid polygon."\<close> (InvalidGeometryError).

  \<open>list.remove\<close> raises a \<open>ValueError\<close> of its own when the element is missing, reading
  an attribute that was never set raises \<open>AttributeError\<close>, writing a non-bytes object to
  a binary file raises \<open>TypeError\<close>, and \<open>open\<close> raises \<open>OSError\<close>.
\<close>

datatype error =
    ValueError string
  | AttributeError string
  | TypeError string
  | OSError string

text \<open>
  A method mutates the instance and either returns \<open>None\<close> or raises. Its model returns
  the outcome (\<open>Inl\<close> the exception, \<open>Inr ()\<close> the normal return) together with the
  instance as the call leaves it, so a mutation made before a \<open>raise\<close> stays visible.
\<close>

type_synonym 's method_result = "(error + unit) \<times> 's"

text \<open>\<open>name in d\<close> for a dict \<open>d\<close>.\<close>

definition has_key :: "('k \<rightharpoonup> 'v) \<Rightarrow> 'k \<Rightarrow> bool" where
  "has_key d k = (case d k of None \<Rightarrow> False | Some _ \<Rightarrow> True)"

text \<open>\<open>del d[name]\<close>, called only where \<open>name in d\<close> has been checked.\<close>

definition del_key :: "('k \<rightharpoonup> 'v) \<Rightarrow> 'k \<Rightarrow> ('k \<rightharpoonup> 'v)" where
  "del_key d k = d(k := None)"

text \<open>
  A Python \<open>float\<close> is either NaN or a value of a linear order \<open>'a\<close> (the finite
  floats and the two infinities, in numeric order). \<open>a < b\<close> on floats is the order on
  values and is false as soon as one side is NaN.
\<close>

datatype 'a pyfloat = Fin 'a | NaN

fun float_lt :: "'a::linorder pyfloat \<Rightarrow> 'a pyfloat \<Rightarrow> bool" where
  "float_lt (Fin a) (Fin b) = (a < b)"
| "float_lt _ _ = False"

text \<open>
  \<open>sorted(xs)\<close>: a stable sort that compares with \<open><\<close> only. Each element is put behind
  the elements it is not less than. On a list of two elements \<open>[a, b]\<close>, the only ones
  the module sorts, this is the single comparison \<open>b < a\<close> that CPython's sort makes.
\<close>

fun insort_py :: "'a::linorder pyfloat \<Rightarrow> 'a pyfloat list \<Rightarrow> 'a pyfloat list" where
  "insort_py x [] = [x]"
| "insort_py x (y # ys) = (if float_lt x y then x # y # ys else y # insort_py x ys)"

definition sorted_py :: "'a::linorder pyfloat list \<Rightarrow> 'a pyfloat list" where
  "sorted_py xs = foldl (\<lambda>acc x. insort_py x acc) [] xs"

text \<open>
  Python's builtins \<open>min(a, b)\<close> and \<open>max(a, b)\<close>, in which the stored interval is
  described: \<open>min\<close> returns \<open>a\<close> unless \<open>b < a\<close>, \<open>max\<close> returns \<open>a\<close> unless
  \<open>b > a\<close>.
\<close>

definition min_py :: "'a::linorder pyfloat \<Rightarrow> 'a pyfloat \<Rightarrow> 'a pyfloat" where
  "min_py a b = (if float_lt b a then b else a)"

definition max_py :: "'a::linorder pyfloat \<Rightarrow> 'a pyfloat \<Rightarrow> 'a pyfloat" where
  "max_py a b = (if float_lt a b then b else a)"

text \<open>
  \<open>xs.remove(x)\<close>: drops the first element equal to \<open>x\<close>; \<open>None\<close> stands for the
  \<open>ValueError\<close> raised when there is none.
\<close>

fun list_remove :: "'a \<Rightarrow> 'a list \<Rightarrow> 'a list option" where
  "list_remove x [] = None"
| "list_remove x (y # ys) =
     (if y = x then Some ys else map_option ((#) y) (list_remove x ys))"

section \<open>Geo1DData\<close>

record 'a Geo1DData =
  parts1 :: "string \<rightharpoonup> 'a pyfloat \<times> 'a pyfloat"

definition Geo1DData_init :: "'a Geo1DData" where
  "Geo1DData_init = \<lparr> parts1 = Map.empty \<rparr>"

definition Geo1DData_add_part ::
  "string \<Rightarrow> 'a::linorder pyfloat \<Rightarrow> 'a pyfloat \<Rightarrow> bool \<Rightarrow> 'a Geo1DData
     \<Rightarrow> 'a Geo1DData method_result" where
  "Geo1DData_add_part part_name start_point end_point overwrite g =
     (case sorted_py [start_point, end_point] of
        [start, end_p] \<Rightarrow>
          if has_key (parts1 g) part_name \<and> \<not> overwrite then
            (Inl (ValueError (''Attempted to overwrite the part '' @ part_name @ ''.'')), g)
          else
            (Inr (), g\<lparr>parts1 := (parts1 g)(part_name \<mapsto> (start, end_p))\<rparr>)
      | _ \<Rightarrow> (Inl (ValueError ''not enough values to unpack''), g))"

definition Geo1DData_remove_part ::
  "string \<Rightarrow> bool \<Rightarrow> 'a Geo1DData \<Rightarrow> 'a Geo1DData method_result" where
  "Geo1DData_remove_part part_name ignore_if_absent g =
     (if has_key (parts1 g) part_name then
        (Inr (), g\<lparr>parts1 := del_key (parts1 g) part_name\<rparr>)
      else if \<not> ignore_if_absent then
        (Inl (ValueError (''Attempted to remove the part '' @ part_name
                            @ '', which doesn't exist.'')), g)
      else (Inr (), g))"

section \<open>Geo2DData\<close>

text \<open>
  Polygons and line strings are shapely objects and stay opaque. The only thing the
  module reads from a polygon is its \<open>is_valid\<close> attribute, so a polygon is a record
  of that attribute and the rest of the object (\<open>shape\<close>); a line string is a value of
  any type \<open>'e\<close>.
\<close>

record 'a Polygon =
  is_valid :: bool
  shape :: 'a

record ('p, 'e) Geo2DData =
  parts :: "string \<rightharpoonup> 'p Polygon"
  edges :: "string \<rightharpoonup> 'e"
  build_order :: "string list"

definition Geo2DData_init :: "('p, 'e) Geo2DData" where
  "Geo2DData_init = \<lparr> parts = Map.empty, edges = Map.empty, build_order = [] \<rparr>"

definition Geo2DData_add_part ::
  "string \<Rightarrow> 'p Polygon \<Rightarrow> bool \<Rightarrow> ('p, 'e) Geo2DData
     \<Rightarrow> ('p, 'e) Geo2DData method_result" where
  "Geo2DData_add_part part_name part overwrite g =
     (if \<not> is_valid part then
        (Inl (ValueError (''Part '' @ part_name @ '' is not a valid polygon.'')), g)
      else if has_key (parts g) part_name \<and> \<not> overwrite then
        (Inl (ValueError (''Attempted to overwrite the part '' @ part_name @ ''.'')), g)
      else
        (Inr (), g\<lparr>parts := (parts g)(part_name \<mapsto> part),
                    build_order := build_order g @ [part_name]\<rparr>))"

definition Geo2DData_remove_part ::
  "string \<Rightarrow> bool \<Rightarrow> ('p, 'e) Geo2DData \<Rightarrow> ('p, 'e) Geo2DData method_result" where
  "Geo2DData_remove_part part_name ignore_if_absent g =
     (if has_key (parts g) part_name then
        (let g1 = g\<lparr>parts := del_key (parts g) part_name\<rparr> in
         case list_remove part_name (build_order g1) of
           None \<Rightarrow> (Inl (ValueError ''list.remove(x): x not in list''), g1)
         | Some bo \<Rightarrow> (Inr (), g1\<lparr>build_order := bo\<rparr>))
      else if \<not> ignore_if_absent then
        (Inl (ValueError (''Attempted to remove the part '' @ part_name
                            @ '', which doesn't exist.'')), g)
      else (Inr (), g))"

definition Geo2DData_add_edge ::
  "string \<Rightarrow> 'e \<Rightarrow> bool \<Rightarrow> ('p, 'e) Geo2DData \<Rightarrow> ('p, 'e) Geo2DData method_result" where
  "Geo2DData_add_edge edge_name edge overwrite g =
     (if has_key (edges g) edge_name \<and> \<not> overwrite then
        (Inl (ValueError (''Attempted to overwrite the edge '' @ edge_name @ ''.'')), g)
      else
        (Inr (), g\<lparr>edges := (edges g)(edge_name \<mapsto> edge),
                    build_order := build_order g @ [edge_name]\<rparr>))"

definition Geo2DData_remove_edge ::
  "string \<Rightarrow> bool \<Rightarrow> ('p, 'e) Geo2DData \<Rightarrow> ('p, 'e) Geo2DData method_result" where
  "Geo2DData_remove_edge edge_name ignore_if_absent g =
     (if has_key (edges g) edge_name then
        (let g1 = g\<lparr>edges := del_key (edges g) edge_name\<rparr> in
         case list_remove edge_name (build_order g1) of
           None \<Rightarrow> (Inl (ValueError ''list.remove(x): x not in list''), g1)
         | Some bo \<Rightarrow> (Inr (), g1\<lparr>build_order := bo\<rparr>))
      else if \<not> ignore_if_absent then
        (Inl (ValueError (''Attempted to remove the edge '' @ edge_name
                            @ '', which doesn't exist.'')), g)
      else (Inr (), g))"

subsection \<open>Sequences of calls on one instance\<close>

text \<open>
  A caller's program is a list of method calls. A call that raises leaves the instance as
  the method left it, and the caller may go on calling, so the run continues from there.
\<close>

datatype ('p, 'e) call2d =
    AddPart string "'p Polygon" bool
  | RemovePart string bool
  | AddEdge string 'e bool
  | RemoveEdge string bool

fun do_call :: "('p, 'e) call2d \<Rightarrow> ('p, 'e) Geo2DData
    \<Rightarrow> ('p, 'e) Geo2DData method_result" where
  "do_call (AddPart n p ov) g = Geo2DData_add_part n p ov g"
| "do_call (RemovePart n ign) g = Geo2DData_remove_part n ign g"
| "do_call (AddEdge n e ov) g = Geo2DData_add_edge n e ov g"
| "do_call (RemoveEdge n ign) g = Geo2DData_remove_edge n ign g"

fun run2d :: "('p, 'e) call2d list \<Rightarrow> ('p, 'e) Geo2DData
    \<Rightarrow> ('p, 'e) Geo2DData" where
  "run2d [] g = g"
| "run2d (c # cs) g = run2d cs (snd (do_call c g))"

text \<open>
  Bookkeeping for the statements below: \<open>key_count d n\<close> is 1 when \<open>n\<close> is a key of \<open>d\<close>
  and 0 otherwise; \<open>overwrites cs g n\<close> counts the calls of the run \<open>cs\<close> from
  \<open>g\<close> that are a successful add under the name \<open>n\<close> while \<open>n\<close> is already a key of the
  targeted registry (which needs \<open>overwrite=True\<close>).
\<close>

definition key_count :: "('k \<rightharpoonup> 'v) \<Rightarrow> 'k \<Rightarrow> nat" where
  "key_count d k = (if has_key d k then 1 else 0)"

fun overwriting :: "('p, 'e) call2d \<Rightarrow> ('p, 'e) Geo2DData \<Rightarrow> string \<Rightarrow> nat" where
  "overwriting (AddPart m p ov) g n =
     (if m = n \<and> is_valid p \<and> ov \<and> has_key (parts g) m then 1 else 0)"
| "overwriting (AddEdge m e ov) g n =
     (if m = n \<and> ov \<and> has_key (edges g) m then 1 else 0)"
| "overwriting (RemovePart m ign) g n = 0"
| "overwriting (RemoveEdge m ign) g n = 0"

fun overwrites :: "('p, 'e) call2d list \<Rightarrow> ('p, 'e) Geo2DData \<Rightarrow> string \<Rightarrow> nat" where
  "overwrites [] g n = 0"
| "overwrites (c # cs) g n =
     overwriting c g n + overwrites cs (snd (do_call c g)) n"

section \<open>Geo3DData\<close>

text \<open>
  \<open>label\<close> comes from the base class \<open>Data\<close> of \<open>qmt.task_framework\<close>;
  \<open>serial_fcdoc\<close> is not set by \<open>__init__\<close> (the assignment is commented out), so the
  attribute is absent (\<open>None\<close> here) until a caller attaches a blob.
\<close>

record ('part, 'blob) Geo3DData =
  label :: string
  build_order3 :: "string list"
  parts3 :: "string \<rightharpoonup> 'part"
  serial_fcdoc :: "'blob option"

text \<open>
  Modelled from the spec: the base class \<open>Data\<close> is not part of the sources; the spec says
  it supplies a label field, which the constructor takes here as an argument.
\<close>

definition Geo3DData_init :: "string \<Rightarrow> ('part, 'blob) Geo3DData" where
  "Geo3DData_init l = \<lparr> label = l, build_order3 = [], parts3 = Map.empty, serial_fcdoc = None \<rparr>"

definition Geo3DData_add_part ::
  "string \<Rightarrow> 'part \<Rightarrow> bool \<Rightarrow> ('part, 'blob) Geo3DData
     \<Rightarrow> ('part, 'blob) Geo3DData method_result" where
  "Geo3DData_add_part part_name part overwrite g =
     (if has_key (parts3 g) part_name \<and> \<not> overwrite then
        (Inl (ValueError (''Attempted to overwrite the part '' @ part_name @ ''.'')), g)
      else
        (Inr (), g\<lparr>parts3 := (parts3 g)(part_name \<mapsto> part)\<rparr>))"

definition Geo3DData_remove_part ::
  "string \<Rightarrow> bool \<Rightarrow> ('part, 'blob) Geo3DData \<Rightarrow> ('part, 'blob) Geo3DData method_result" where
  "Geo3DData_remove_part part_name ignore_if_absent g =
     (if has_key (parts3 g) part_name then
        (Inr (), g\<lparr>parts3 := del_key (parts3 g) part_name\<rparr>)
      else if \<not> ignore_if_absent then
        (Inl (ValueError (''Attempted to remove the part '' @ part_name
                            @ '', which doesn't exist.'')), g)
      else (Inr (), g))"

subsection \<open>\<open>write_fcstd\<close>\<close>

text \<open>
  The file system is a map from paths to file contents. \<open>pickle.loads\<close> is the parameter
  \<open>loads\<close>: it raises or returns an object, which is a bytes object or something else.
  \<open>open(file_path, 'wb')\<close> raises where the parameter \<open>openable\<close> says the path cannot be
  opened for writing; where it succeeds the file exists and is empty, and \<open>of.write(data)\<close>
  then fills it, raising \<open>TypeError\<close> for an object that is not bytes.
\<close>

type_synonym bytes = "8 word list"
type_synonym filesystem = "string \<rightharpoonup> bytes"

datatype pyobj = Bytes bytes | NotBytes

definition Geo3DData_write_fcstd ::
  "('blob \<Rightarrow> error + pyobj) \<Rightarrow> (string \<Rightarrow> bool) \<Rightarrow> string option
     \<Rightarrow> ('part, 'blob) Geo3DData \<Rightarrow> filesystem \<Rightarrow> (error + string) \<times> filesystem" where
  "Geo3DData_write_fcstd loads openable file_path g fs =
     (let file_path' = (case file_path of None \<Rightarrow> label g @ ''.fcstd'' | Some p \<Rightarrow> p) in
      case serial_fcdoc g of
        None \<Rightarrow> (Inl (AttributeError ''serial_fcdoc''), fs)
      | Some blob \<Rightarrow>
          (case loads blob of
             Inl e \<Rightarrow> (Inl e, fs)
           | Inr data \<Rightarrow>
               if \<not> openable file_path' then (Inl (OSError file_path'), fs)
               else (case data of
                       Bytes bs \<Rightarrow> (Inr file_path', fs(file_path' \<mapsto> bs))
                     | NotBytes \<Rightarrow>
                         (Inl (TypeError ''a bytes-like object is required''),
                          fs(file_path' \<mapsto> [])))))"

section \<open>Facts about the Python primitives\<close>

lemma sorted_py_pair: "sorted_py [a, b] = (if float_lt b a then [b, a] else [a, b])"
  by (simp add: sorted_py_def)

lemma sorted_py_Fin: "sorted_py [Fin a, Fin b] = [Fin (min a b), Fin (max a b)]"
  by (auto simp: sorted_py_def min_def max_def)

lemma min_max_py_Fin:
  "min_py (Fin a) (Fin b) = Fin (min a b)" "max_py (Fin a) (Fin b) = Fin (max a b)"
  by (auto simp: min_py_def max_py_def min_def max_def)

lemma has_key_iff: "has_key d k \<longleftrightarrow> d k \<noteq> None"
  by (simp add: has_key_def split: option.split)

lemma list_remove_remove1:
  "list_remove x xs = (if x \<in> set xs then Some (remove1 x xs) else None)"
  by (induction xs) auto

lemma list_remove_first:
  "x \<in> set xs \<Longrightarrow> \<exists>us vs. xs = us @ x # vs \<and> x \<notin> set us \<and> list_remove x xs = Some (us @ vs)"
proof (induction xs)
  case Nil
  then show ?case by simp
next
  case (Cons y ys)
  show ?case
  proof (cases "y = x")
    case True
    then have "y # ys = [] @ x # ys \<and> x \<notin> set [] \<and> list_remove x (y # ys) = Some ([] @ ys)"
      by simp
    then show ?thesis by blast
  next
    case False
    with Cons.prems have "x \<in> set ys" by simp
    from Cons.IH [OF this] obtain us vs
      where "ys = us @ x # vs" "x \<notin> set us" "list_remove x ys = Some (us @ vs)" by blast
    with False have "y # ys = (y # us) @ x # vs \<and> x \<notin> set (y # us)
        \<and> list_remove x (y # ys) = Some ((y # us) @ vs)"
      by auto
    then show ?thesis by blast
  qed
qed

lemma count_list_remove1:
  "count_list (remove1 x xs) n = count_list xs n - (if x = n \<and> x \<in> set xs then 1 else 0)"
  by (induction xs) auto

lemma count_list_pos_iff: "0 < count_list xs n \<longleftrightarrow> n \<in> set xs"
  by (induction xs) auto

lemma has_key_upd: "has_key (d(m \<mapsto> v)) n \<longleftrightarrow> m = n \<or> has_key d n"
  by (simp add: has_key_def)

lemma has_key_del: "has_key (del_key d m) n \<longleftrightarrow> m \<noteq> n \<and> has_key d n"
  by (simp add: has_key_def del_key_def)

lemmas key_simps = key_count_def has_key_upd has_key_del

lemma accounted_in_build_order:
  assumes "\<forall>n. count_list (build_order g) n = key_count (parts g) n + key_count (edges g) n + k n"
    and "has_key (parts g) m \<or> has_key (edges g) m"
  shows "m \<in> set (build_order g)"
proof -
  from assms(2) have "0 < key_count (parts g) m + key_count (edges g) m"
    by (auto simp: key_count_def)
  with assms(1) have "0 < count_list (build_order g) m" by simp
  then show ?thesis by (simp add: count_list_pos_iff)
qed

section \<open>The build order accounts for the registries\<close>

lemma do_call_count:
  assumes acc: "\<forall>n. count_list (build_order g) n
      = key_count (parts g) n + key_count (edges g) n + k n"
  shows "count_list (build_order (snd (do_call c g))) n
      = key_count (parts (snd (do_call c g))) n + key_count (edges (snd (do_call c g))) n
        + k n + overwriting c g n"
proof (cases c)
  case (AddPart m p ov)
  then show ?thesis using acc
    by (auto simp: Geo2DData_add_part_def key_simps)
next
  case (AddEdge m e ov)
  then show ?thesis using acc
    by (auto simp: Geo2DData_add_edge_def key_simps)
next
  case (RemovePart m ign)
  show ?thesis
  proof (cases "has_key (parts g) m")
    case True
    then have "m \<in> set (build_order g)" using accounted_in_build_order [OF acc] by blast
    with True RemovePart acc show ?thesis
      by (auto simp: Geo2DData_remove_part_def list_remove_remove1 count_list_remove1
          key_simps)
  next
    case False
    with RemovePart acc show ?thesis by (simp add: Geo2DData_remove_part_def)
  qed
next
  case (RemoveEdge m ign)
  show ?thesis
  proof (cases "has_key (edges g) m")
    case True
    then have "m \<in> set (build_order g)" using accounted_in_build_order [OF acc] by blast
    with True RemoveEdge acc show ?thesis
      by (auto simp: Geo2DData_remove_edge_def list_remove_remove1 count_list_remove1
          key_simps)
  next
    case False
    with RemoveEdge acc show ?thesis by (simp add: Geo2DData_remove_edge_def)
  qed
qed

lemma run2d_count:
  "\<forall>n. count_list (build_order g) n = key_count (parts g) n + key_count (edges g) n + k n
   \<Longrightarrow> count_list (build_order (run2d cs g)) n
      = key_count (parts (run2d cs g)) n + key_count (edges (run2d cs g)) n
        + k n + overwrites cs g n"
proof (induction cs arbitrary: g k)
  case Nil
  then show ?case by simp
next
  case (Cons c cs)
  have "\<forall>n. count_list (build_order (snd (do_call c g))) n
      = key_count (parts (snd (do_call c g))) n + key_count (edges (snd (do_call c g))) n
        + (k n + overwriting c g n)"
    using do_call_count [OF Cons.prems] by (simp add: add.assoc)
  from Cons.IH [OF this] show ?case by (simp add: add.assoc)
qed

lemma run2d_init_count:
  "count_list (build_order (run2d cs Geo2DData_init)) n
     = key_count (parts (run2d cs Geo2DData_init)) n
       + key_count (edges (run2d cs Geo2DData_init)) n
       + overwrites cs Geo2DData_init n"
  using run2d_count [of Geo2DData_init "\<lambda>_. 0" cs n]
  by (simp add: Geo2DData_init_def key_count_def has_key_def)

lemma run2d_init_key_in_build_order:
  "has_key (parts (run2d cs Geo2DData_init)) m \<or> has_key (edges (run2d cs Geo2DData_init)) m
   \<Longrightarrow> m \<in> set (build_order (run2d cs Geo2DData_init))"
  using accounted_in_build_order [of "run2d cs Geo2DData_init" "overwrites cs Geo2DData_init" m]
    run2d_init_count [of cs] by blast

lemmas call_defs = Geo2DData_add_part_def Geo2DData_add_edge_def Geo2DData_remove_part_def
  Geo2DData_remove_edge_def Geo2DData_init_def has_key_def del_key_def

section \<open>Geo1DData: the stored interval\<close>

text \<open>
  The claim C9 as stated fails when an endpoint is NaN: every comparison with NaN is
  false, so \<open>sorted\<close> leaves the two endpoints in call order. \<open>add_part("a", 1.0, nan)\<close>
  stores \<open>(1.0, nan)\<close> where \<open>(min, max)\<close> is \<open>(1.0, 1.0)\<close>, and
  \<open>add_part("a", nan, 1.0)\<close> stores \<open>(nan, 1.0)\<close> where \<open>(min, max)\<close> is \<open>(nan, nan)\<close>.
\<close>

theorem C9_counterexample:
  "parts1 (snd (Geo1DData_add_part ''a'' (Fin 1) NaN False (Geo1DData_init :: real Geo1DData)))
       ''a''
     \<noteq> Some (min_py (Fin 1) NaN, max_py (Fin 1) NaN)
   \<and> parts1 (snd (Geo1DData_add_part ''a'' (Fin 1) NaN False
                     (Geo1DData_init :: real Geo1DData))) ''a''
     = Some (Fin 1, NaN)
   \<and> (min_py (Fin (1::real)) NaN, max_py (Fin (1::real)) NaN) = (Fin 1, Fin 1)
   \<and> parts1 (snd (Geo1DData_add_part ''a'' NaN (Fin 1) False
                     (Geo1DData_init :: real Geo1DData))) ''a''
     = Some (NaN, Fin 1)
   \<and> (min_py NaN (Fin (1::real)), max_py NaN (Fin (1::real))) = (NaN, NaN)"
  by (simp add: Geo1DData_add_part_def Geo1DData_init_def has_key_def sorted_py_pair
      min_py_def max_py_def)

text \<open>
  C9 (amended). For every Geo1DData instance, every name that is not yet a key of
  \<open>parts\<close> and every pair of endpoints neither of which is NaN,
  \<open>add_part(name, start, end)\<close> returns normally and stores the interval
  \<open>(min(start, end), max(start, end))\<close> under that name, whatever \<open>overwrite\<close> is.
\<close>

theorem C9_add_part_stores_sorted_interval:
  "\<not> has_key (parts1 g) n \<Longrightarrow> s \<noteq> NaN \<Longrightarrow> e \<noteq> NaN \<Longrightarrow>
     Geo1DData_add_part n s e ov g
       = (Inr (), g\<lparr>parts1 := (parts1 g)(n \<mapsto> (min_py s e, max_py s e))\<rparr>)
     \<and> parts1 (snd (Geo1DData_add_part n s e ov g)) n = Some (min_py s e, max_py s e)
     \<and> (\<exists>a b. s = Fin a \<and> e = Fin b
            \<and> min_py s e = Fin (min a b) \<and> max_py s e = Fin (max a b))"
proof -
  assume fresh: "\<not> has_key (parts1 g) n" and "s \<noteq> NaN" and "e \<noteq> NaN"
  then obtain a b where se: "s = Fin a" "e = Fin b"
    by (cases s; cases e) auto
  with fresh show ?thesis
    by (simp add: Geo1DData_add_part_def sorted_py_Fin min_max_py_Fin)
qed

theorem C9_add_part_stores_sorted_interval_witness:
  "\<not> has_key (parts1 (Geo1DData_init :: real Geo1DData)) ''a''
   \<and> Fin (5::real) \<noteq> NaN \<and> Fin (2::real) \<noteq> NaN
   \<and> parts1 (snd (Geo1DData_add_part ''a'' (Fin 5) (Fin 2) False
                     (Geo1DData_init :: real Geo1DData))) ''a''
       = Some (Fin 2, Fin 5)"
  using C9_add_part_stores_sorted_interval
    [of "Geo1DData_init :: real Geo1DData" "''a''" "Fin 5" "Fin 2" False]
  by (simp add: Geo1DData_init_def has_key_def min_max_py_Fin)

section \<open>Geo3DData: the build order is never written\<close>

text \<open>
  C5. For every Geo3DData instance, \<open>add_part\<close> and \<open>remove_part\<close> leave
  \<open>build_order\<close> as it was, whether the call returns normally or raises.
\<close>

theorem C5_build_order_untouched:
  "build_order3 (snd (Geo3DData_add_part n p ov g)) = build_order3 g
   \<and> build_order3 (snd (Geo3DData_remove_part n ign g)) = build_order3 g"
  by (simp add: Geo3DData_add_part_def Geo3DData_remove_part_def)

section \<open>Geo2DData: validity is checked before the name\<close>

text \<open>
  C10. \<open>Geo2DData.add_part\<close> tests the polygon before the name: with an invalid polygon,
  a name that is already a key of \<open>parts\<close> and \<open>overwrite=False\<close>, the call raises the
  invalid-polygon error, not the duplicate-name error, and leaves the instance unchanged.
\<close>

theorem C10_validity_checked_first:
  "\<not> is_valid p \<Longrightarrow> has_key (parts g) n \<Longrightarrow>
     Geo2DData_add_part n p False g
       = (Inl (ValueError (''Part '' @ n @ '' is not a valid polygon.'')), g)
     \<and> fst (Geo2DData_add_part n p False g)
       \<noteq> Inl (ValueError (''Attempted to overwrite the part '' @ n @ ''.''))"
  by (simp add: Geo2DData_add_part_def)

theorem C10_validity_checked_first_witness:
  "\<not> is_valid \<lparr>is_valid = False, shape = ()\<rparr>
   \<and> has_key (parts (run2d [AddPart ''a'' \<lparr>is_valid = True, shape = ()\<rparr> False]
                       (Geo2DData_init :: (unit, unit) Geo2DData))) ''a''
   \<and> fst (Geo2DData_add_part ''a'' \<lparr>is_valid = False, shape = ()\<rparr> False
            (run2d [AddPart ''a'' \<lparr>is_valid = True, shape = ()\<rparr> False]
                       (Geo2DData_init :: (unit, unit) Geo2DData)))
       = Inl (ValueError ''Part a is not a valid polygon.'')"
  using C10_validity_checked_first
    [of "\<lparr>is_valid = False, shape = ()\<rparr>"
        "run2d [AddPart ''a'' \<lparr>is_valid = True, shape = ()\<rparr> False]
                       (Geo2DData_init :: (unit, unit) Geo2DData)" "''a''"]
  by (simp add: call_defs)

section \<open>Removing a name that is absent\<close>

text \<open>
  C7. In each registry (Geo1DData parts, Geo2DData parts, Geo2DData edges, Geo3DData parts),
  removing a name that is not a key of the targeted registry raises the not-found
  \<open>ValueError\<close> when \<open>ignore_if_absent=False\<close>, and returns normally when
  \<open>ignore_if_absent=True\<close>; in both cases the instance is left exactly as it was.
\<close>

theorem C7_remove_absent:
  "(\<not> has_key (parts1 g1) n \<longrightarrow>
      Geo1DData_remove_part n False g1
        = (Inl (ValueError (''Attempted to remove the part '' @ n @ '', which doesn't exist.'')), g1)
      \<and> Geo1DData_remove_part n True g1 = (Inr (), g1))
   \<and> (\<not> has_key (parts g2) n \<longrightarrow>
      Geo2DData_remove_part n False g2
        = (Inl (ValueError (''Attempted to remove the part '' @ n @ '', which doesn't exist.'')), g2)
      \<and> Geo2DData_remove_part n True g2 = (Inr (), g2))
   \<and> (\<not> has_key (edges g2) n \<longrightarrow>
      Geo2DData_remove_edge n False g2
        = (Inl (ValueError (''Attempted to remove the edge '' @ n @ '', which doesn't exist.'')), g2)
      \<and> Geo2DData_remove_edge n True g2 = (Inr (), g2))
   \<and> (\<not> has_key (parts3 g3) n \<longrightarrow>
      Geo3DData_remove_part n False g3
        = (Inl (ValueError (''Attempted to remove the part '' @ n @ '', which doesn't exist.'')), g3)
      \<and> Geo3DData_remove_part n True g3 = (Inr (), g3))"
  by (simp add: Geo1DData_remove_part_def Geo2DData_remove_part_def Geo2DData_remove_edge_def
      Geo3DData_remove_part_def)

theorem C7_remove_absent_witness:
  "\<not> has_key (parts1 (snd (Geo1DData_add_part ''b'' (Fin (1::real)) (Fin 2) False Geo1DData_init))) ''a''
   \<and> \<not> has_key (parts (run2d [AddPart ''b'' \<lparr>is_valid = True, shape = ()\<rparr> False,
                               AddEdge ''a'' () False]
                         (Geo2DData_init :: (unit, unit) Geo2DData))) ''a''
   \<and> \<not> has_key (edges (run2d [AddPart ''a'' \<lparr>is_valid = True, shape = ()\<rparr> False]
                         (Geo2DData_init :: (unit, unit) Geo2DData))) ''a''
   \<and> \<not> has_key (parts3 (Geo3DData_init ''dev'' :: (unit, unit) Geo3DData)) ''a''
   \<and> fst (Geo1DData_remove_part ''a'' False
             (snd (Geo1DData_add_part ''b'' (Fin (1::real)) (Fin 2) False Geo1DData_init)))
       = Inl (ValueError ''Attempted to remove the part a, which doesn't exist.'')
   \<and> Geo2DData_remove_part ''a'' True
         (run2d [AddPart ''b'' \<lparr>is_valid = True, shape = ()\<rparr> False, AddEdge ''a'' () False]
            (Geo2DData_init :: (unit, unit) Geo2DData))
       = (Inr (), run2d [AddPart ''b'' \<lparr>is_valid = True, shape = ()\<rparr> False,
                         AddEdge ''a'' () False]
            (Geo2DData_init :: (unit, unit) Geo2DData))
   \<and> fst (Geo3DData_remove_part ''a'' False (Geo3DData_init ''dev'' :: (unit, unit) Geo3DData))
       = Inl (ValueError ''Attempted to remove the part a, which doesn't exist.'')"
  using C7_remove_absent
    [of "snd (Geo1DData_add_part ''b'' (Fin (1::real)) (Fin 2) False Geo1DData_init)" "''a''"
        "run2d [AddPart ''b'' \<lparr>is_valid = True, shape = ()\<rparr> False, AddEdge ''a'' () False]
            (Geo2DData_init :: (unit, unit) Geo2DData)"
        "Geo3DData_init ''dev'' :: (unit, unit) Geo3DData"]
    C7_remove_absent
    [of "Geo1DData_init :: real Geo1DData" "''a''"
        "run2d [AddPart ''a'' \<lparr>is_valid = True, shape = ()\<rparr> False]
            (Geo2DData_init :: (unit, unit) Geo2DData)"
        "Geo3DData_init ''dev'' :: (unit, unit) Geo3DData"]
  by (simp add: call_defs Geo1DData_add_part_def Geo1DData_init_def Geo3DData_init_def
      sorted_py_pair)

section \<open>Adding under a name that is taken, without overwrite\<close>

text \<open>
  The claim C3 as stated fails for \<open>Geo2DData.add_part\<close>: with a name that is a key of
  \<open>parts\<close>, \<open>overwrite=False\<close> and an invalid polygon, the error raised is the
  invalid-polygon one, not the duplicate-name one.
\<close>

theorem C3_counterexample:
  "fst (Geo2DData_add_part ''a'' \<lparr>is_valid = False, shape = ()\<rparr> False
          (run2d [AddPart ''a'' \<lparr>is_valid = True, shape = ()\<rparr> False]
             (Geo2DData_init :: (unit, unit) Geo2DData)))
     \<noteq> Inl (ValueError ''Attempted to overwrite the part a.'')
   \<and> has_key (parts (run2d [AddPart ''a'' \<lparr>is_valid = True, shape = ()\<rparr> False]
             (Geo2DData_init :: (unit, unit) Geo2DData))) ''a''"
  by (simp add: call_defs)

text \<open>
  C3 (amended). With a name that is already a key of the targeted registry and
  \<open>overwrite=False\<close>, \<open>Geo1DData.add_part\<close>, \<open>Geo2DData.add_edge\<close>,
  \<open>Geo3DData.add_part\<close>, and \<open>Geo2DData.add_part\<close> with a valid polygon raise the
  duplicate-name \<open>ValueError\<close>; \<open>Geo2DData.add_part\<close> with an invalid polygon raises
  the invalid-polygon \<open>ValueError\<close> instead. In every case the instance is left exactly
  as it was.
\<close>

theorem C3_duplicate_add_rejected:
  "(has_key (parts1 g1) n \<longrightarrow>
      Geo1DData_add_part n s e False g1
        = (Inl (ValueError (''Attempted to overwrite the part '' @ n @ ''.'')), g1))
   \<and> (has_key (parts g2) n \<and> is_valid p \<longrightarrow>
      Geo2DData_add_part n p False g2
        = (Inl (ValueError (''Attempted to overwrite the part '' @ n @ ''.'')), g2))
   \<and> (has_key (parts g2) n \<and> \<not> is_valid q \<longrightarrow>
      Geo2DData_add_part n q False g2
        = (Inl (ValueError (''Part '' @ n @ '' is not a valid polygon.'')), g2))
   \<and> (has_key (edges g2) m \<longrightarrow>
      Geo2DData_add_edge m l False g2
        = (Inl (ValueError (''Attempted to overwrite the edge '' @ m @ ''.'')), g2))
   \<and> (has_key (parts3 g3) n \<longrightarrow>
      Geo3DData_add_part n p3 False g3
        = (Inl (ValueError (''Attempted to overwrite the part '' @ n @ ''.'')), g3))"
  by (simp add: Geo1DData_add_part_def sorted_py_pair Geo2DData_add_part_def
      Geo2DData_add_edge_def Geo3DData_add_part_def)

theorem C3_duplicate_add_rejected_witness:
  "has_key (parts1 (snd (Geo1DData_add_part ''a'' (Fin (5::real)) (Fin 2) False Geo1DData_init))) ''a''
   \<and> has_key (parts (run2d [AddPart ''a'' \<lparr>is_valid = True, shape = ()\<rparr> False,
                             AddEdge ''e'' () False]
                       (Geo2DData_init :: (unit, unit) Geo2DData))) ''a''
   \<and> has_key (edges (run2d [AddPart ''a'' \<lparr>is_valid = True, shape = ()\<rparr> False,
                             AddEdge ''e'' () False]
                       (Geo2DData_init :: (unit, unit) Geo2DData))) ''e''
   \<and> has_key (parts3 (snd (Geo3DData_add_part ''a'' () False
                             (Geo3DData_init ''dev'' :: (unit, unit) Geo3DData)))) ''a''
   \<and> is_valid \<lparr>is_valid = True, shape = ()\<rparr>
   \<and> \<not> is_valid \<lparr>is_valid = False, shape = ()\<rparr>
   \<and> Geo1DData_add_part ''a'' (Fin 0) (Fin 1) False
         (snd (Geo1DData_add_part ''a'' (Fin (5::real)) (Fin 2) False Geo1DData_init))
       = (Inl (ValueError ''Attempted to overwrite the part a.''),
          \<lparr>parts1 = [''a'' \<mapsto> (Fin 2, Fin 5)]\<rparr>)
   \<and> fst (Geo2DData_add_part ''a'' \<lparr>is_valid = True, shape = ()\<rparr> False
         (run2d [AddPart ''a'' \<lparr>is_valid = True, shape = ()\<rparr> False, AddEdge ''e'' () False]
            (Geo2DData_init :: (unit, unit) Geo2DData)))
       = Inl (ValueError ''Attempted to overwrite the part a.'')
   \<and> fst (Geo2DData_add_part ''a'' \<lparr>is_valid = False, shape = ()\<rparr> False
         (run2d [AddPart ''a'' \<lparr>is_valid = True, shape = ()\<rparr> False, AddEdge ''e'' () False]
            (Geo2DData_init :: (unit, unit) Geo2DData)))
       = Inl (ValueError ''Part a is not a valid polygon.'')
   \<and> fst (Geo2DData_add_edge ''e'' () False
         (run2d [AddPart ''a'' \<lparr>is_valid = True, shape = ()\<rparr> False, AddEdge ''e'' () False]
            (Geo2DData_init :: (unit, unit) Geo2DData)))
       = Inl (ValueError ''Attempted to overwrite the edge e.'')
   \<and> fst (Geo3DData_add_part ''a'' () False
         (snd (Geo3DData_add_part ''a'' () False
                 (Geo3DData_init ''dev'' :: (unit, unit) Geo3DData))))
       = Inl (ValueError ''Attempted to overwrite the part a.'')"
  using C3_duplicate_add_rejected
    [of "snd (Geo1DData_add_part ''a'' (Fin (5::real)) (Fin 2) False Geo1DData_init)" "''a''" "Fin 0" "Fin 1"
        "run2d [AddPart ''a'' \<lparr>is_valid = True, shape = ()\<rparr> False, AddEdge ''e'' () False]
            (Geo2DData_init :: (unit, unit) Geo2DData)"
        "\<lparr>is_valid = True, shape = ()\<rparr>" "\<lparr>is_valid = False, shape = ()\<rparr>" "''e''" "()"
        "snd (Geo3DData_add_part ''a'' () False
                 (Geo3DData_init ''dev'' :: (unit, unit) Geo3DData))" "()"]
  by (simp add: call_defs Geo1DData_add_part_def Geo1DData_init_def Geo3DData_init_def
      Geo3DData_add_part_def sorted_py_pair)

section \<open>Geo2DData: invalid polygons, and edges that are never tested\<close>

text \<open>
  C4. \<open>Geo2DData.add_part\<close> with a polygon whose \<open>is_valid\<close> is false raises the
  invalid-polygon \<open>ValueError\<close> and leaves \<open>parts\<close>, \<open>edges\<close> and \<open>build_order\<close>
  as they were, whatever the name and \<open>overwrite\<close> are. \<open>add_edge\<close> makes no such
  test: even an object whose \<open>is_valid\<close> is false is stored as an edge and its name
  appended to \<open>build_order\<close>, as soon as the name is free or \<open>overwrite\<close> is set.
\<close>

theorem C4_invalid_polygon_rejected:
  "(\<not> is_valid p \<longrightarrow>
      Geo2DData_add_part n p ov g
        = (Inl (ValueError (''Part '' @ n @ '' is not a valid polygon.'')), g))
   \<and> (\<not> is_valid l \<and> (\<not> has_key (edges h) m \<or> ov') \<longrightarrow>
      Geo2DData_add_edge m l ov' h
        = (Inr (), h\<lparr>edges := (edges h)(m \<mapsto> l), build_order := build_order h @ [m]\<rparr>))"
  by (auto simp: Geo2DData_add_part_def Geo2DData_add_edge_def)

theorem C4_invalid_polygon_rejected_witness:
  "\<not> is_valid \<lparr>is_valid = False, shape = ()\<rparr>
   \<and> \<not> has_key (edges (run2d [AddPart ''a'' \<lparr>is_valid = True, shape = ()\<rparr> False]
                          (Geo2DData_init :: (unit, unit Polygon) Geo2DData))) ''x''
   \<and> Geo2DData_add_part ''x'' \<lparr>is_valid = False, shape = ()\<rparr> False
        (run2d [AddPart ''a'' \<lparr>is_valid = True, shape = ()\<rparr> False]
           (Geo2DData_init :: (unit, unit Polygon) Geo2DData))
       = (Inl (ValueError ''Part x is not a valid polygon.''),
          \<lparr>parts = [''a'' \<mapsto> \<lparr>is_valid = True, shape = ()\<rparr>], edges = Map.empty,
           build_order = [''a'']\<rparr>)
   \<and> Geo2DData_add_edge ''x'' \<lparr>is_valid = False, shape = ()\<rparr> False
        (run2d [AddPart ''a'' \<lparr>is_valid = True, shape = ()\<rparr> False]
           (Geo2DData_init :: (unit, unit Polygon) Geo2DData))
       = (Inr (),
          \<lparr>parts = [''a'' \<mapsto> \<lparr>is_valid = True, shape = ()\<rparr>],
           edges = [''x'' \<mapsto> \<lparr>is_valid = False, shape = ()\<rparr>],
           build_order = [''a'', ''x'']\<rparr>)"
  using C4_invalid_polygon_rejected
    [of "\<lparr>is_valid = False, shape = ()\<rparr>" "''x''" False
        "run2d [AddPart ''a'' \<lparr>is_valid = True, shape = ()\<rparr> False]
           (Geo2DData_init :: (unit, unit Polygon) Geo2DData)"
        "\<lparr>is_valid = False, shape = ()\<rparr>"
        "run2d [AddPart ''a'' \<lparr>is_valid = True, shape = ()\<rparr> False]
           (Geo2DData_init :: (unit, unit Polygon) Geo2DData)" "''x''" False]
  by (simp add: call_defs)

section \<open>Geo3DData: writing the document\<close>

text \<open>
  C6. With a blob attached, if \<open>pickle.loads\<close> returns a bytes object and the resolved
  path (\<open>file_path\<close>, or \<open><label>.fcstd\<close> when \<open>file_path\<close> is \<open>None\<close>) can be opened
  for writing, \<open>write_fcstd\<close> returns the resolved path and the file at that path holds
  exactly those bytes, every other file being untouched. With no blob attached the call
  raises and no file is written.
\<close>

theorem C6_write_fcstd:
  "(serial_fcdoc g = Some blob \<and> loads blob = Inr (Bytes bs)
      \<and> openable (case file_path of None \<Rightarrow> label g @ ''.fcstd'' | Some p \<Rightarrow> p) \<longrightarrow>
      Geo3DData_write_fcstd loads openable file_path g fs
        = (Inr (case file_path of None \<Rightarrow> label g @ ''.fcstd'' | Some p \<Rightarrow> p),
           fs((case file_path of None \<Rightarrow> label g @ ''.fcstd'' | Some p \<Rightarrow> p) \<mapsto> bs)))
   \<and> (serial_fcdoc g = None \<longrightarrow>
      Geo3DData_write_fcstd loads openable file_path g fs
        = (Inl (AttributeError ''serial_fcdoc''), fs))"
  by (simp add: Geo3DData_write_fcstd_def Let_def)

theorem C6_write_fcstd_witness:
  "Geo3DData_write_fcstd (\<lambda>b. Inr (Bytes b)) (\<lambda>p. True) None
      ((Geo3DData_init ''dev'' :: (unit, bytes) Geo3DData)\<lparr>serial_fcdoc := Some [1, 2, 3]\<rparr>)
      [''old'' \<mapsto> [7]]
     = (Inr ''dev.fcstd'', [''old'' \<mapsto> [7], ''dev.fcstd'' \<mapsto> [1, 2, 3]])
   \<and> Geo3DData_write_fcstd (\<lambda>b. Inr (Bytes b)) (\<lambda>p. True) (Some ''out.bin'')
      ((Geo3DData_init ''dev'' :: (unit, bytes) Geo3DData)\<lparr>serial_fcdoc := Some [1, 2, 3]\<rparr>)
      [''out.bin'' \<mapsto> [7]]
     = (Inr ''out.bin'', [''out.bin'' \<mapsto> [1, 2, 3]])
   \<and> Geo3DData_write_fcstd (\<lambda>b. Inr (Bytes b)) (\<lambda>p. True) (Some ''out.bin'')
      (Geo3DData_init ''dev'' :: (unit, bytes) Geo3DData) [''out.bin'' \<mapsto> [7]]
     = (Inl (AttributeError ''serial_fcdoc''), [''out.bin'' \<mapsto> [7]])"
  using
    C6_write_fcstd [of "(Geo3DData_init ''dev'' :: (unit, bytes) Geo3DData)\<lparr>serial_fcdoc := Some [1, 2, 3]\<rparr>"
        "[1, 2, 3]" "\<lambda>b. Inr (Bytes b)" "[1, 2, 3]" "\<lambda>p. True" None "[''old'' \<mapsto> [7]]"]
    C6_write_fcstd [of "(Geo3DData_init ''dev'' :: (unit, bytes) Geo3DData)\<lparr>serial_fcdoc := Some [1, 2, 3]\<rparr>"
        "[1, 2, 3]" "\<lambda>b. Inr (Bytes b)" "[1, 2, 3]" "\<lambda>p. True" "Some ''out.bin''" "[''out.bin'' \<mapsto> [7]]"]
    C6_write_fcstd [of "Geo3DData_init ''dev'' :: (unit, bytes) Geo3DData"
        "[]" "\<lambda>b. Inr (Bytes b)" "[]" "\<lambda>p. True" "Some ''out.bin''" "[''out.bin'' \<mapsto> [7]]"]
  by (simp add: Geo3DData_init_def)

section \<open>Geo2DData: overwriting appends to the build order\<close>

text \<open>
  C2. For every Geo2DData instance whose \<open>parts\<close> has the key \<open>n\<close>, \<open>add_part\<close> with
  \<open>n\<close>, a valid polygon and \<open>overwrite=True\<close> returns normally, stores the new polygon
  under \<open>n\<close> and appends \<open>n\<close> to \<open>build_order\<close>; \<open>add_edge\<close> does the same on
  \<open>edges\<close>. On an instance obtained from a fresh one by method calls, \<open>n\<close> then
  occurs at least twice in \<open>build_order\<close>.
\<close>

theorem C2_overwrite_appends:
  "(has_key (parts g) n \<and> is_valid p \<longrightarrow>
      Geo2DData_add_part n p True g
        = (Inr (), g\<lparr>parts := (parts g)(n \<mapsto> p), build_order := build_order g @ [n]\<rparr>))
   \<and> (has_key (edges g) m \<longrightarrow>
      Geo2DData_add_edge m l True g
        = (Inr (), g\<lparr>edges := (edges g)(m \<mapsto> l), build_order := build_order g @ [m]\<rparr>))
   \<and> (has_key (parts (run2d cs Geo2DData_init)) n \<and> is_valid p \<longrightarrow>
      2 \<le> count_list
             (build_order (snd (Geo2DData_add_part n p True (run2d cs Geo2DData_init)))) n)
   \<and> (has_key (edges (run2d cs Geo2DData_init)) m \<longrightarrow>
      2 \<le> count_list
             (build_order (snd (Geo2DData_add_edge m l True (run2d cs Geo2DData_init)))) m)"
proof -
  have in_bo: "k \<in> set (build_order (run2d cs Geo2DData_init))"
    if "has_key (parts (run2d cs Geo2DData_init)) k \<or> has_key (edges (run2d cs Geo2DData_init)) k"
    for k
    using that by (rule run2d_init_key_in_build_order)
  have pos: "1 \<le> count_list (build_order (run2d cs Geo2DData_init)) k"
    if "has_key (parts (run2d cs Geo2DData_init)) k \<or> has_key (edges (run2d cs Geo2DData_init)) k"
    for k
    using in_bo [OF that] count_list_pos_iff [of "build_order (run2d cs Geo2DData_init)" k]
    by simp
  show ?thesis
    using pos [of n] pos [of m]
    by (auto simp: Geo2DData_add_part_def Geo2DData_add_edge_def)
qed

theorem C2_overwrite_appends_witness:
  "has_key (parts (run2d [AddPart ''a'' \<lparr>is_valid = True, shape = (1::nat)\<rparr> False,
                          AddEdge ''e'' (0::nat) False, AddPart ''b'' \<lparr>is_valid = True, shape = 2\<rparr> False]
                     Geo2DData_init)) ''a''
   \<and> has_key (edges (run2d [AddPart ''a'' \<lparr>is_valid = True, shape = (1::nat)\<rparr> False,
                          AddEdge ''e'' (0::nat) False, AddPart ''b'' \<lparr>is_valid = True, shape = 2\<rparr> False]
                     Geo2DData_init)) ''e''
   \<and> is_valid \<lparr>is_valid = True, shape = (9::nat)\<rparr>
   \<and> Geo2DData_add_part ''a'' \<lparr>is_valid = True, shape = 9\<rparr> True
        (run2d [AddPart ''a'' \<lparr>is_valid = True, shape = (1::nat)\<rparr> False,
                AddEdge ''e'' (0::nat) False, AddPart ''b'' \<lparr>is_valid = True, shape = 2\<rparr> False]
           Geo2DData_init)
       = (Inr (),
          \<lparr>parts = [''a'' \<mapsto> \<lparr>is_valid = True, shape = 9\<rparr>,
                    ''b'' \<mapsto> \<lparr>is_valid = True, shape = 2\<rparr>],
           edges = [''e'' \<mapsto> 0],
           build_order = [''a'', ''e'', ''b'', ''a'']\<rparr>)
   \<and> build_order (snd (Geo2DData_add_edge ''e'' 7 True
        (run2d [AddPart ''a'' \<lparr>is_valid = True, shape = (1::nat)\<rparr> False,
                AddEdge ''e'' (0::nat) False, AddPart ''b'' \<lparr>is_valid = True, shape = 2\<rparr> False]
           Geo2DData_init)))
       = [''a'', ''e'', ''b'', ''e'']"
  using C2_overwrite_appends
    [of "run2d [AddPart ''a'' \<lparr>is_valid = True, shape = (1::nat)\<rparr> False,
                AddEdge ''e'' (0::nat) False, AddPart ''b'' \<lparr>is_valid = True, shape = 2\<rparr> False]
           Geo2DData_init" "''a''" "\<lparr>is_valid = True, shape = 9\<rparr>" "''e''" 7
        "[AddPart ''a'' \<lparr>is_valid = True, shape = (1::nat)\<rparr> False,
                AddEdge ''e'' (0::nat) False, AddPart ''b'' \<lparr>is_valid = True, shape = 2\<rparr> False]"]
  by (simp add: call_defs fun_upd_twist)

section \<open>Geo2DData: removing drops the first build order entry\<close>

text \<open>
  C8. For every Geo2DData instance obtained from a fresh one by method calls (and any
  other instance whose \<open>build_order\<close> contains \<open>n\<close>), if \<open>n\<close> is a key of \<open>parts\<close>
  then \<open>remove_part(n)\<close> returns normally, deletes \<open>n\<close> from \<open>parts\<close> and removes
  exactly the first occurrence of \<open>n\<close> from \<open>build_order\<close>: the entries before it, which
  are all different from \<open>n\<close>, and all the entries behind it stay in place.
  \<open>remove_edge\<close> does the same on \<open>edges\<close>.
\<close>

theorem C8_remove_first_occurrence:
  "(has_key (parts g) n \<and> (g = run2d cs Geo2DData_init \<or> n \<in> set (build_order g)) \<longrightarrow>
      (\<exists>us vs. build_order g = us @ n # vs \<and> n \<notin> set us
         \<and> Geo2DData_remove_part n ign g
           = (Inr (), g\<lparr>parts := (parts g)(n := None), build_order := us @ vs\<rparr>)))
   \<and> (has_key (edges g) n \<and> (g = run2d cs Geo2DData_init \<or> n \<in> set (build_order g)) \<longrightarrow>
      (\<exists>us vs. build_order g = us @ n # vs \<and> n \<notin> set us
         \<and> Geo2DData_remove_edge n ign g
           = (Inr (), g\<lparr>edges := (edges g)(n := None), build_order := us @ vs\<rparr>)))"
proof (intro conjI impI)
  assume a: "has_key (parts g) n \<and> (g = run2d cs Geo2DData_init \<or> n \<in> set (build_order g))"
  then have "n \<in> set (build_order g)"
    using run2d_init_key_in_build_order [of cs n] by blast
  from list_remove_first [OF this] obtain us vs
    where "build_order g = us @ n # vs" "n \<notin> set us"
      "list_remove n (build_order g) = Some (us @ vs)" by blast
  with a show "\<exists>us vs. build_order g = us @ n # vs \<and> n \<notin> set us
         \<and> Geo2DData_remove_part n ign g
           = (Inr (), g\<lparr>parts := (parts g)(n := None), build_order := us @ vs\<rparr>)"
    by (intro exI [of _ us] exI [of _ vs]) (simp add: Geo2DData_remove_part_def del_key_def)
next
  assume a: "has_key (edges g) n \<and> (g = run2d cs Geo2DData_init \<or> n \<in> set (build_order g))"
  then have "n \<in> set (build_order g)"
    using run2d_init_key_in_build_order [of cs n] by blast
  from list_remove_first [OF this] obtain us vs
    where "build_order g = us @ n # vs" "n \<notin> set us"
      "list_remove n (build_order g) = Some (us @ vs)" by blast
  with a show "\<exists>us vs. build_order g = us @ n # vs \<and> n \<notin> set us
         \<and> Geo2DData_remove_edge n ign g
           = (Inr (), g\<lparr>edges := (edges g)(n := None), build_order := us @ vs\<rparr>)"
    by (intro exI [of _ us] exI [of _ vs]) (simp add: Geo2DData_remove_edge_def del_key_def)
qed

theorem C8_remove_first_occurrence_witness:
  "has_key (parts (run2d [AddPart ''a'' \<lparr>is_valid = True, shape = (1::nat)\<rparr> False,
                          AddPart ''b'' \<lparr>is_valid = True, shape = 2\<rparr> False,
                          AddEdge ''a'' (0::nat) False,
                          AddPart ''a'' \<lparr>is_valid = True, shape = 3\<rparr> True]
                     Geo2DData_init)) ''a''
   \<and> has_key (edges (run2d [AddPart ''a'' \<lparr>is_valid = True, shape = (1::nat)\<rparr> False,
                          AddPart ''b'' \<lparr>is_valid = True, shape = 2\<rparr> False,
                          AddEdge ''a'' (0::nat) False,
                          AddPart ''a'' \<lparr>is_valid = True, shape = 3\<rparr> True]
                     Geo2DData_init)) ''a''
   \<and> build_order (run2d [AddPart ''a'' \<lparr>is_valid = True, shape = (1::nat)\<rparr> False,
                          AddPart ''b'' \<lparr>is_valid = True, shape = 2\<rparr> False,
                          AddEdge ''a'' (0::nat) False,
                          AddPart ''a'' \<lparr>is_valid = True, shape = 3\<rparr> True]
                     Geo2DData_init) = [''a'', ''b'', ''a'', ''a'']
   \<and> Geo2DData_remove_part ''a'' False
        (run2d [AddPart ''a'' \<lparr>is_valid = True, shape = (1::nat)\<rparr> False,
                AddPart ''b'' \<lparr>is_valid = True, shape = 2\<rparr> False,
                AddEdge ''a'' (0::nat) False,
                AddPart ''a'' \<lparr>is_valid = True, shape = 3\<rparr> True]
           Geo2DData_init)
       = (Inr (),
          \<lparr>parts = [''b'' \<mapsto> \<lparr>is_valid = True, shape = 2\<rparr>],
           edges = [''a'' \<mapsto> 0],
           build_order = [''b'', ''a'', ''a'']\<rparr>)
   \<and> Geo2DData_remove_edge ''a'' False
        (run2d [AddPart ''a'' \<lparr>is_valid = True, shape = (1::nat)\<rparr> False,
                AddPart ''b'' \<lparr>is_valid = True, shape = 2\<rparr> False,
                AddEdge ''a'' (0::nat) False,
                AddPart ''a'' \<lparr>is_valid = True, shape = 3\<rparr> True]
           Geo2DData_init)
       = (Inr (),
          \<lparr>parts = [''a'' \<mapsto> \<lparr>is_valid = True, shape = 3\<rparr>,
                    ''b'' \<mapsto> \<lparr>is_valid = True, shape = 2\<rparr>],
           edges = Map.empty,
           build_order = [''b'', ''a'', ''a'']\<rparr>)"
  using C8_remove_first_occurrence
    [of "run2d [AddPart ''a'' \<lparr>is_valid = True, shape = (1::nat)\<rparr> False,
          AddPart ''b'' \<lparr>is_valid = True, shape = 2\<rparr> False,
          AddEdge ''a'' (0::nat) False,
          AddPart ''a'' \<lparr>is_valid = True, shape = 3\<rparr> True] Geo2DData_init" "''a''"
        "[AddPart ''a'' \<lparr>is_valid = True, shape = (1::nat)\<rparr> False,
          AddPart ''b'' \<lparr>is_valid = True, shape = 2\<rparr> False,
          AddEdge ''a'' (0::nat) False,
          AddPart ''a'' \<lparr>is_valid = True, shape = 3\<rparr> True]" False]
  by (simp add: call_defs fun_upd_twist)

section \<open>Geo2DData: the build order and the two registries\<close>

text \<open>
  The claim C1 as stated fails: \<open>parts\<close> and \<open>edges\<close> are separate dicts, and nothing
  keeps a name out of one because it is a key of the other. After \<open>add_part("a", ...)\<close>
  and \<open>add_edge("a", ...)\<close>, both without overwrite, \<open>a\<close> is a key of both, so the
  two key sets do not partition the names of \<open>build_order\<close>.
\<close>

theorem C1_counterexample:
  "\<not> (dom (parts (run2d [AddPart ''a'' \<lparr>is_valid = True, shape = ()\<rparr> False,
                           AddEdge ''a'' () False]
                      (Geo2DData_init :: (unit, unit) Geo2DData)))
        \<inter> dom (edges (run2d [AddPart ''a'' \<lparr>is_valid = True, shape = ()\<rparr> False,
                           AddEdge ''a'' () False]
                      (Geo2DData_init :: (unit, unit) Geo2DData))) = {})
   \<and> build_order (run2d [AddPart ''a'' \<lparr>is_valid = True, shape = ()\<rparr> False,
                           AddEdge ''a'' () False]
                      (Geo2DData_init :: (unit, unit) Geo2DData)) = [''a'', ''a'']"
  by (simp add: call_defs)

text \<open>
  C1 (amended). After any sequence of \<open>add_part\<close>, \<open>add_edge\<close>, \<open>remove_part\<close> and
  \<open>remove_edge\<close> calls on a fresh Geo2DData instance, a name occurs in \<open>build_order\<close>
  once for each registry it is a key of, plus once for each add so far that overwrote
  it. So every key of \<open>parts\<close> or \<open>edges\<close> is in \<open>build_order\<close>, and every name of
  \<open>build_order\<close> that no add has overwritten is a key of \<open>parts\<close> or of \<open>edges\<close>. A
  name may be a key of both registries.
\<close>

theorem C1_build_order_accounts_for_registries:
  "count_list (build_order (run2d cs Geo2DData_init)) n
     = key_count (parts (run2d cs Geo2DData_init)) n
       + key_count (edges (run2d cs Geo2DData_init)) n
       + overwrites cs Geo2DData_init n
   \<and> (has_key (parts (run2d cs Geo2DData_init)) n
        \<or> has_key (edges (run2d cs Geo2DData_init)) n
      \<longrightarrow> n \<in> set (build_order (run2d cs Geo2DData_init)))
   \<and> (n \<in> set (build_order (run2d cs Geo2DData_init)) \<and> overwrites cs Geo2DData_init n = 0
      \<longrightarrow> has_key (parts (run2d cs Geo2DData_init)) n
          \<or> has_key (edges (run2d cs Geo2DData_init)) n)"
proof (intro conjI impI)
  show "count_list (build_order (run2d cs Geo2DData_init)) n
     = key_count (parts (run2d cs Geo2DData_init)) n
       + key_count (edges (run2d cs Geo2DData_init)) n
       + overwrites cs Geo2DData_init n"
    by (rule run2d_init_count)
next
  assume "has_key (parts (run2d cs Geo2DData_init)) n
        \<or> has_key (edges (run2d cs Geo2DData_init)) n"
  then show "n \<in> set (build_order (run2d cs Geo2DData_init))"
    by (rule run2d_init_key_in_build_order)
next
  assume a: "n \<in> set (build_order (run2d cs Geo2DData_init)) \<and> overwrites cs Geo2DData_init n = 0"
  then have "0 < count_list (build_order (run2d cs Geo2DData_init)) n"
    by (simp add: count_list_pos_iff)
  with a have "0 < key_count (parts (run2d cs Geo2DData_init)) n
       + key_count (edges (run2d cs Geo2DData_init)) n"
    using run2d_init_count [of cs n] by simp
  then show "has_key (parts (run2d cs Geo2DData_init)) n
          \<or> has_key (edges (run2d cs Geo2DData_init)) n"
    by (auto simp: key_count_def split: if_splits)
qed

theorem C1_build_order_accounts_for_registries_witness:
  "has_key (parts (run2d [AddPart ''a'' \<lparr>is_valid = True, shape = ()\<rparr> False,
                          AddEdge ''a'' () False,
                          AddPart ''b'' \<lparr>is_valid = True, shape = ()\<rparr> False,
                          AddPart ''b'' \<lparr>is_valid = True, shape = ()\<rparr> True,
                          RemovePart ''b'' False]
                     (Geo2DData_init :: (unit, unit) Geo2DData))) ''a''
   \<and> has_key (edges (run2d [AddPart ''a'' \<lparr>is_valid = True, shape = ()\<rparr> False,
                          AddEdge ''a'' () False,
                          AddPart ''b'' \<lparr>is_valid = True, shape = ()\<rparr> False,
                          AddPart ''b'' \<lparr>is_valid = True, shape = ()\<rparr> True,
                          RemovePart ''b'' False]
                     (Geo2DData_init :: (unit, unit) Geo2DData))) ''a''
   \<and> build_order (run2d [AddPart ''a'' \<lparr>is_valid = True, shape = ()\<rparr> False,
                          AddEdge ''a'' () False,
                          AddPart ''b'' \<lparr>is_valid = True, shape = ()\<rparr> False,
                          AddPart ''b'' \<lparr>is_valid = True, shape = ()\<rparr> True,
                          RemovePart ''b'' False]
                     (Geo2DData_init :: (unit, unit) Geo2DData)) = [''a'', ''a'', ''b'']
   \<and> overwrites [AddPart ''a'' \<lparr>is_valid = True, shape = ()\<rparr> False,
                  AddEdge ''a'' () False,
                  AddPart ''b'' \<lparr>is_valid = True, shape = ()\<rparr> False,
                  AddPart ''b'' \<lparr>is_valid = True, shape = ()\<rparr> True,
                  RemovePart ''b'' False]
         (Geo2DData_init :: (unit, unit) Geo2DData) ''a'' = 0
   \<and> overwrites [AddPart ''a'' \<lparr>is_valid = True, shape = ()\<rparr> False,
                  AddEdge ''a'' () False,
                  AddPart ''b'' \<lparr>is_valid = True, shape = ()\<rparr> False,
                  AddPart ''b'' \<lparr>is_valid = True, shape = ()\<rparr> True,
                  RemovePart ''b'' False]
         (Geo2DData_init :: (unit, unit) Geo2DData) ''b'' = 1
   \<and> \<not> has_key (parts (run2d [AddPart ''a'' \<lparr>is_valid = True, shape = ()\<rparr> False,
                          AddEdge ''a'' () False,
                          AddPart ''b'' \<lparr>is_valid = True, shape = ()\<rparr> False,
                          AddPart ''b'' \<lparr>is_valid = True, shape = ()\<rparr> True,
                          RemovePart ''b'' False]
                     (Geo2DData_init :: (unit, unit) Geo2DData))) ''b''"
  using
    C1_build_order_accounts_for_registries
    [of "[AddPart ''a'' \<lparr>is_valid = True, shape = ()\<rparr> False,
          AddEdge ''a'' () False,
          AddPart ''b'' \<lparr>is_valid = True, shape = ()\<rparr> False,
          AddPart ''b'' \<lparr>is_valid = True, shape = ()\<rparr> True,
          RemovePart ''b'' False] :: (unit, unit) call2d list" "''a''"]
    C1_build_order_accounts_for_registries
    [of "[AddPart ''a'' \<lparr>is_valid = True, shape = ()\<rparr> False,
          AddEdge ''a'' () False,
          AddPart ''b'' \<lparr>is_valid = True, shape = ()\<rparr> False,
          AddPart ''b'' \<lparr>is_valid = True, shape = ()\<rparr> True,
          RemovePart ''b'' False] :: (unit, unit) call2d list" "''b''"]
  by (simp add: call_defs)

end
